theory Spec2Isabelle
  imports Complex_Main
begin

section \<open>JavaScript values and operators\<close>

text \<open>
  The handlers read \<^verbatim>\<open>req.body\<close>, a parsed JSON (or form-encoded) object. A field of it
  is any JavaScript value; \<open>JObj\<close> stands for an array or an object, of which the handlers
  only ever test the truthiness and the identity. The fields \<^verbatim>\<open>otp\<close> and
  \<^verbatim>\<open>purpose\<close> are given to the operators \<^verbatim>\<open>!\<close>, \<^verbatim>\<open>!==\<close> and
  \<^verbatim>\<open>===\<close> and are modelled as such values, and so are the passwords and the name,
  which bcrypt and the store refuse when they are no strings. The e-mail address, the key
  of every lookup, is a string; the empty string is the falsy one.
\<close>

datatype jsval = JUndefined | JNull | JBool bool | JNum rat | JStr string | JObj

text \<open>ToBoolean, the test behind \<^verbatim>\<open>!v\<close> and \<^verbatim>\<open>if (v)\<close>.\<close>

fun truthy :: "jsval \<Rightarrow> bool" where
  "truthy JUndefined = False"
| "truthy JNull = False"
| "truthy (JBool b) = b"
| "truthy (JNum n) = (n \<noteq> 0)"
| "truthy (JStr s) = (s \<noteq> [])"
| "truthy JObj = True"

text \<open>
  Strict equality \<^verbatim>\<open>===\<close>: same type and same value; an object of the request is
  identical to nothing that comes from elsewhere.
\<close>

definition strict_eq :: "jsval \<Rightarrow> jsval \<Rightarrow> bool" where
  "strict_eq a b = (a \<noteq> JObj \<and> a = b)"

text \<open>A nullable string column as the store returns it: \<^verbatim>\<open>null\<close> or a string.\<close>

definition js_of_column :: "string option \<Rightarrow> jsval" where
  "js_of_column c = (case c of None \<Rightarrow> JNull | Some s \<Rightarrow> JStr s)"

text \<open>
  \<^verbatim>\<open>d < new Date()\<close> for a nullable date column \<open>d\<close>: both sides are converted to
  numbers, a date to its milliseconds since the epoch and \<^verbatim>\<open>null\<close> to 0.
\<close>

definition date_lt :: "int option \<Rightarrow> int \<Rightarrow> bool" where
  "date_lt d t = ((case d of None \<Rightarrow> 0 | Some e \<Rightarrow> e) < t)"

text \<open>\<^verbatim>\<open>Number.prototype.toString\<close> on a non-negative integer: its decimal digits.\<close>

function toString :: "nat \<Rightarrow> string" where
  "toString n =
     (if n < 10 then [''0123456789'' ! n]
      else toString (n div 10) @ [''0123456789'' ! (n mod 10)])"
  by pat_completeness auto
termination
  by (relation "measure (\<lambda>n. n)") auto

section \<open>The credential store\<close>

text \<open>
  The columns of a user row that the identity handlers read or write. Times are
  milliseconds since the epoch. The profile columns are written by other handlers only.
  The store is a list of rows; its calls are taken to succeed, so that the \<^verbatim>\<open>catch\<close>
  branches of the handlers are reached through \<^verbatim>\<open>sendOTP\<close>, \<^verbatim>\<open>bcrypt\<close>,
  \<^verbatim>\<open>jwt\<close> and the check of the data of a new row.
\<close>

record user =
  id' :: string
  fullName :: string
  email :: string
  password :: string
  isVerified :: bool
  otp :: "string option"
  otpExpiry :: "int option"

text \<open>
  The effects of a request on the outside, in the order in which they happen: a call of
  \<^verbatim>\<open>sendOTP(email, otp)\<close>, a \<^verbatim>\<open>prisma.user.create\<close> of the row of an e-mail address,
  a \<^verbatim>\<open>prisma.user.update\<close> of the row that a unique key selects.
\<close>

datatype event =
    SendOTP string string
  | Create string
  | Update string

record world =
  users :: "user list"
  trace :: "event list"

text \<open>
  What a request finds outside the store: the clock (\<^verbatim>\<open>Date.now()\<close>,
  \<^verbatim>\<open>new Date()\<close>), the draw of \<^verbatim>\<open>Math.random()\<close>, how the awaited
  \<^verbatim>\<open>sendOTP(email, otp)\<close> settles (\<open>None\<close>: it resolves; \<open>Some m\<close>: it rejects with an
  error of message \<open>m\<close>), bcrypt on strings with the salt it draws, the identifier the
  store gives to a new row, the message of the error with which the store rejects data that
  do not fit its schema, and \<^verbatim>\<open>process.env.JWT_SECRET\<close>.
\<close>

record env =
  now :: int
  Math_random :: real
  sendOTP :: "string option"
  bcrypt_hash :: "string \<Rightarrow> string"
  bcrypt_compare :: "string \<Rightarrow> string \<Rightarrow> bool"
  new_id :: string
  prisma_error :: string
  JWT_SECRET :: "string option"

definition findUnique_email :: "world \<Rightarrow> string \<Rightarrow> user option" where
  "findUnique_email w e = find (\<lambda>u. email u = e) (users w)"

definition findUnique_id :: "world \<Rightarrow> string \<Rightarrow> user option" where
  "findUnique_id w i = find (\<lambda>u. id' u = i) (users w)"

text \<open>\<^verbatim>\<open>prisma.user.update\<close> changes the one row that the unique key selects.\<close>

fun update_row :: "(user \<Rightarrow> bool) \<Rightarrow> (user \<Rightarrow> user) \<Rightarrow> user list \<Rightarrow> user list" where
  "update_row p f [] = []"
| "update_row p f (u # us) = (if p u then f u # us else u # update_row p f us)"

definition update_email :: "string \<Rightarrow> (user \<Rightarrow> user) \<Rightarrow> world \<Rightarrow> world" where
  "update_email e f w =
     w\<lparr>users := update_row (\<lambda>u. email u = e) f (users w), trace := trace w @ [Update e]\<rparr>"

definition update_id :: "string \<Rightarrow> (user \<Rightarrow> user) \<Rightarrow> world \<Rightarrow> world" where
  "update_id i f w =
     w\<lparr>users := update_row (\<lambda>u. id' u = i) f (users w), trace := trace w @ [Update i]\<rparr>"

text \<open>
  Modelled from the spec: the default of the column \<^verbatim>\<open>isVerified\<close>. It is set by the
  Prisma schema, which is not among the sources; the specification says
  ``isVerified: boolean; false until successful OTP verification post-registration''.
\<close>

definition default_isVerified :: bool where
  "default_isVerified = False"

text \<open>
  \<^verbatim>\<open>prisma.user.create({ data: { fullName, email, password, otp, otpExpiry } })\<close>: the
  row gets its identifier from the store and the default for the column that is not given.
\<close>

definition create :: "env \<Rightarrow> string \<Rightarrow> string \<Rightarrow> string \<Rightarrow> string \<Rightarrow> int \<Rightarrow> user" where
  "create en n e p c x =
     \<lparr>id' = new_id en, fullName = n, email = e, password = p,
      isVerified = default_isVerified, otp = Some c, otpExpiry = Some x\<rparr>"

definition insert_row :: "user \<Rightarrow> world \<Rightarrow> world" where
  "insert_row u w = w\<lparr>users := users w @ [u], trace := trace w @ [Create (email u)]\<rparr>"

text \<open>
  The awaited \<^verbatim>\<open>prisma.user.create\<close>: the store checks the data against its schema
  before it writes. The column \<^verbatim>\<open>fullName\<close> is a required string, as the API
  description of \<^verbatim>\<open>register\<close> declares it, so the call rejects when the name is
  missing or is no string; \<open>Inl\<close> carries the message of the error.
\<close>

definition prisma_create ::
  "env \<Rightarrow> jsval \<Rightarrow> string \<Rightarrow> string \<Rightarrow> string \<Rightarrow> int \<Rightarrow> string + user" where
  "prisma_create en n e p c x =
     (case n of JStr s \<Rightarrow> Inr (create en s e p c x) | _ \<Rightarrow> Inl (prisma_error en))"

section \<open>bcrypt\<close>

text \<open>
  The awaited \<^verbatim>\<open>bcrypt.hash(data, 10)\<close> and \<^verbatim>\<open>bcrypt.compare(data, hash)\<close>, where
  \<open>hash\<close> is the column \<^verbatim>\<open>password\<close> of a row. Both reject when \<open>data\<close> is
  \<^verbatim>\<open>undefined\<close> or \<^verbatim>\<open>null\<close>, and when it is no string; \<open>Inl\<close> carries the
  message of the error.
\<close>

definition await_bcrypt_hash :: "env \<Rightarrow> jsval \<Rightarrow> string + string" where
  "await_bcrypt_hash en d =
     (case d of
        JStr s \<Rightarrow> Inr (bcrypt_hash en s)
      | JUndefined \<Rightarrow> Inl ''data and salt arguments required''
      | JNull \<Rightarrow> Inl ''data and salt arguments required''
      | _ \<Rightarrow> Inl (''data must be a string or Buffer and salt must either be ''
                 @ ''a salt string or a number of rounds''))"

definition await_bcrypt_compare :: "env \<Rightarrow> jsval \<Rightarrow> string \<Rightarrow> string + bool" where
  "await_bcrypt_compare en d h =
     (case d of
        JStr s \<Rightarrow> Inr (bcrypt_compare en s h)
      | JUndefined \<Rightarrow> Inl ''data and hash arguments required''
      | JNull \<Rightarrow> Inl ''data and hash arguments required''
      | _ \<Rightarrow> Inl ''data and hash must be strings'')"

section \<open>Session tokens\<close>

text \<open>
  A string as \<^verbatim>\<open>jsonwebtoken\<close> sees it: the compact form of a token signed under a key
  with the payload \<^verbatim>\<open>{ id, iat, exp }\<close> (times in seconds), or any other string.
  Signatures are symbolic: a token verifies under the key it was signed with and no other.
\<close>

datatype tokstr = Plain string | Signed string string int int

definition is_empty_str :: "tokstr \<Rightarrow> bool" where
  "is_empty_str t = (case t of Plain s \<Rightarrow> s = [] | Signed k i a x \<Rightarrow> False)"

text \<open>
  \<^verbatim>\<open>jwt.sign({ id }, secret, { expiresIn: '7d' })\<close>: throws without a secret; otherwise
  \<^verbatim>\<open>iat = Math.floor(Date.now() / 1000)\<close> and \<^verbatim>\<open>exp = iat + 604800\<close>.
\<close>

definition jwt_sign :: "string \<Rightarrow> string option \<Rightarrow> int \<Rightarrow> string + tokstr" where
  "jwt_sign i secret t =
     (case secret of
        None \<Rightarrow> Inl ''secretOrPrivateKey must have a value''
      | Some k \<Rightarrow>
          if k = [] then Inl ''secretOrPrivateKey must have a value''
          else let iat = t div 1000 in Inr (Signed k i iat (iat + 7 * 24 * 60 * 60)))"

text \<open>
  \<^verbatim>\<open>jwt.verify(token, secret)\<close>: throws on a string that is not a token, without a
  secret, on a signature made with another key, and when
  \<^verbatim>\<open>Math.floor(Date.now() / 1000) >= exp\<close>; otherwise returns the payload, of which the
  caller reads \<^verbatim>\<open>id\<close>.
\<close>

definition jwt_verify :: "tokstr \<Rightarrow> string option \<Rightarrow> int \<Rightarrow> string + string" where
  "jwt_verify token secret t =
     (case token of
        Plain s \<Rightarrow> Inl ''jwt malformed''
      | Signed k i iat ex \<Rightarrow>
          (case secret of
             None \<Rightarrow> Inl ''secret or public key must be provided''
           | Some k' \<Rightarrow>
               if k' = [] then Inl ''secret or public key must be provided''
               else if k \<noteq> k' then Inl ''invalid signature''
               else if t div 1000 \<ge> ex then Inl ''jwt expired''
               else Inr i))"

definition generateToken :: "env \<Rightarrow> user \<Rightarrow> string + tokstr" where
  "generateToken en u = jwt_sign (id' u) (JWT_SECRET en) (now en)"

section \<open>Responses\<close>

text \<open>
  The JSON bodies the handlers send: \<^verbatim>\<open>{ message }\<close>, \<^verbatim>\<open>{ message, user }\<close>,
  \<^verbatim>\<open>{ message, error }\<close> and \<^verbatim>\<open>{ user, token }\<close>. A \<^verbatim>\<open>user\<close> in a body is the
  row as the store returned it, serialised with all its columns.
\<close>

datatype body =
    Msg string
  | MsgUser string user
  | MsgError string string
  | UserToken user tokstr

record response =
  status :: nat
  json :: body

definition respond :: "nat \<Rightarrow> body \<Rightarrow> response" where
  "respond c b = \<lparr>status = c, json = b\<rparr>"

text \<open>The error kinds of the specification, as the responses the code sends for them.\<close>

definition ValidationError_EmailInUse :: response where
  "ValidationError_EmailInUse = respond 400 (Msg ''Email already in use'')"

definition NotFound :: response where
  "NotFound = respond 404 (Msg ''User not found'')"

definition InvalidOrExpiredOtp :: response where
  "InvalidOrExpiredOtp = respond 400 (Msg ''Invalid or expired OTP'')"

definition AlreadyVerified :: response where
  "AlreadyVerified = respond 400 (Msg ''Already verified'')"

definition InvalidCredentials :: response where
  "InvalidCredentials = respond 400 (Msg ''Invalid credentials'')"

definition EmailNotVerified :: response where
  "EmailNotVerified = respond 403 (Msg ''Please verify your email before logging in.'')"

definition Unauthorized :: response where
  "Unauthorized = respond 401 (Msg ''Unauthorized'')"

definition InvalidToken :: response where
  "InvalidToken = respond 401 (Msg ''Invalid token'')"

definition AccountNotFound :: response where
  "AccountNotFound = respond 404 (Msg ''User not found'')"

section \<open>The handlers\<close>

text \<open>
  \<^verbatim>\<open>generateOTP = () => Math.floor(100000 + Math.random() * 900000).toString()\<close>, on the
  draw of \<^verbatim>\<open>Math.random()\<close>, in exact arithmetic: the code computes in doubles, where
  the rounding of the product and of the sum can move the result by one. Nothing below
  depends on the digits of the code.
\<close>

definition generateOTP :: "real \<Rightarrow> string" where
  "generateOTP r = toString (nat \<lfloor>100000 + r * 900000\<rfloor>)"

text \<open>
  The test \<^verbatim>\<open>user.otp !== otp || user.otpExpiry < new Date()\<close> of
  \<^verbatim>\<open>verifyOTP\<close> and \<^verbatim>\<open>resetPassword\<close>.
\<close>

definition otp_rejected :: "user \<Rightarrow> jsval \<Rightarrow> int \<Rightarrow> bool" where
  "otp_rejected u c t = (\<not> strict_eq (js_of_column (otp u)) c \<or> date_lt (otpExpiry u) t)"

definition register :: "env \<Rightarrow> jsval \<Rightarrow> string \<Rightarrow> jsval \<Rightarrow> world \<Rightarrow> response \<times> world" where
  "register en req_fullName req_email req_password w =
     (case findUnique_email w req_email of
        Some existing \<Rightarrow> (respond 400 (Msg ''Email already in use''), w)
      | None \<Rightarrow>
          (let c = generateOTP (Math_random en);
               x = now en + 10 * 60 * 1000;
               w1 = w\<lparr>trace := trace w @ [SendOTP req_email c]\<rparr>
           in case sendOTP en of
                Some m \<Rightarrow> (respond 500 (MsgError ''Registration failed'' m), w1)
              | None \<Rightarrow>
                  (case await_bcrypt_hash en req_password of
                     Inl m \<Rightarrow> (respond 500 (MsgError ''Registration failed'' m), w1)
                   | Inr hashedPassword \<Rightarrow>
                       (case prisma_create en req_fullName req_email hashedPassword c x of
                          Inl m \<Rightarrow> (respond 500 (MsgError ''Registration failed'' m), w1)
                        | Inr u \<Rightarrow>
                            (respond 201
                               (MsgUser ''OTP sent to email. Please verify to continue.'' u),
                             insert_row u w1)))))"

definition verifyOTP :: "env \<Rightarrow> string \<Rightarrow> jsval \<Rightarrow> jsval \<Rightarrow> world \<Rightarrow> response \<times> world" where
  "verifyOTP en req_email req_otp req_purpose w =
     (if req_email = [] \<or> \<not> truthy req_otp \<or> \<not> truthy req_purpose
      then (respond 400 (Msg ''Email, OTP, and purpose are required.''), w)
      else case findUnique_email w req_email of
        None \<Rightarrow> (respond 404 (Msg ''User not found''), w)
      | Some u \<Rightarrow>
          if otp_rejected u req_otp (now en)
          then (respond 400 (Msg ''Invalid or expired OTP''), w)
          else if strict_eq req_purpose (JStr ''register'')
          then (if isVerified u then (respond 400 (Msg ''Already verified''), w)
                else (respond 200 (Msg ''Email verified successfully''),
                      update_email req_email
                        (\<lambda>r. r\<lparr>isVerified := True, otp := None, otpExpiry := None\<rparr>) w))
          else if strict_eq req_purpose (JStr ''forgot-password'')
          then (respond 200 (Msg ''OTP verified for password reset''), w)
          else (respond 400 (Msg ''Invalid purpose''), w))"

definition resendOTP :: "env \<Rightarrow> string \<Rightarrow> world \<Rightarrow> response \<times> world" where
  "resendOTP en req_email w =
     (if req_email = [] then (respond 400 (Msg ''Email is required.''), w)
      else case findUnique_email w req_email of
        None \<Rightarrow> (respond 404 (Msg ''User not found''), w)
      | Some u \<Rightarrow>
          (let c = toString (nat \<lfloor>100000 + Math_random en * 900000\<rfloor>);
               x = now en + 5 * 60 * 1000;
               w1 = update_email req_email (\<lambda>r. r\<lparr>otp := Some c, otpExpiry := Some x\<rparr>) w;
               w2 = w1\<lparr>trace := trace w1 @ [SendOTP req_email c]\<rparr>
           in case sendOTP en of
                Some m \<Rightarrow> (respond 500 (Msg ''Error resending OTP''), w2)
              | None \<Rightarrow> (respond 200 (Msg ''OTP resent successfully''), w2)))"

definition login :: "env \<Rightarrow> string \<Rightarrow> jsval \<Rightarrow> world \<Rightarrow> response \<times> world" where
  "login en req_email req_password w =
     (case findUnique_email w req_email of
        None \<Rightarrow> (respond 400 (Msg ''Invalid credentials''), w)
      | Some u \<Rightarrow>
          (case await_bcrypt_compare en req_password (password u) of
             Inl m \<Rightarrow> (respond 500 (MsgError ''Login failed'' m), w)
           | Inr isMatch \<Rightarrow>
               if \<not> isMatch
               then (respond 400 (Msg ''Invalid credentials''), w)
               else if \<not> isVerified u
               then (respond 403 (Msg ''Please verify your email before logging in.''), w)
               else (case generateToken en u of
                       Inl m \<Rightarrow> (respond 500 (MsgError ''Login failed'' m), w)
                     | Inr token \<Rightarrow> (respond 200 (UserToken u token), w))))"

definition forgotPassword :: "env \<Rightarrow> string \<Rightarrow> world \<Rightarrow> response \<times> world" where
  "forgotPassword en req_email w =
     (case findUnique_email w req_email of
        None \<Rightarrow> (respond 404 (Msg ''User not found''), w)
      | Some u \<Rightarrow>
          (let c = generateOTP (Math_random en);
               x = now en + 10 * 60 * 1000;
               w1 = update_email req_email (\<lambda>r. r\<lparr>otp := Some c, otpExpiry := Some x\<rparr>) w;
               w2 = w1\<lparr>trace := trace w1 @ [SendOTP req_email c]\<rparr>
           in case sendOTP en of
                Some m \<Rightarrow> (respond 500 (Msg ''Error sending OTP''), w2)
              | None \<Rightarrow> (respond 200 (Msg ''OTP sent to email for password reset.''), w2)))"

definition resetPassword :: "env \<Rightarrow> string \<Rightarrow> jsval \<Rightarrow> jsval \<Rightarrow> world \<Rightarrow> response \<times> world" where
  "resetPassword en req_email req_otp req_newPassword w =
     (case findUnique_email w req_email of
        None \<Rightarrow> (respond 404 (Msg ''User not found''), w)
      | Some u \<Rightarrow>
          if otp_rejected u req_otp (now en)
          then (respond 400 (Msg ''Invalid or expired OTP''), w)
          else (case await_bcrypt_hash en req_newPassword of
                  Inl m \<Rightarrow> (respond 500 (Msg ''Error resetting password''), w)
                | Inr hashedPassword \<Rightarrow>
                    (respond 200 (Msg ''Password reset successfully. You can now log in.''),
                     update_email req_email
                       (\<lambda>r. r\<lparr>password := hashedPassword, otp := None, otpExpiry := None\<rparr>) w)))"

text \<open>\<^verbatim>\<open>changePassword\<close>, behind \<^verbatim>\<open>authMiddleware\<close>: \<open>req_user\<close> is \<^verbatim>\<open>req.user\<close>.\<close>

definition changePassword :: "env \<Rightarrow> user \<Rightarrow> jsval \<Rightarrow> jsval \<Rightarrow> world \<Rightarrow> response \<times> world" where
  "changePassword en req_user req_currentPassword req_newPassword w =
     (if \<not> truthy req_currentPassword \<or> \<not> truthy req_newPassword
      then (respond 400 (Msg ''Both current and new passwords are required.''), w)
      else case findUnique_id w (id' req_user) of
        None \<Rightarrow> (respond 404 (Msg ''User not found.''), w)
      | Some u \<Rightarrow>
          (case await_bcrypt_compare en req_currentPassword (password u) of
             Inl m \<Rightarrow> (respond 500 (Msg ''Error changing password.''), w)
           | Inr isMatch \<Rightarrow>
               if \<not> isMatch
               then (respond 401 (Msg ''Incorrect current password.''), w)
               else (case await_bcrypt_hash en req_newPassword of
                       Inl m \<Rightarrow> (respond 500 (Msg ''Error changing password.''), w)
                     | Inr hashedPassword \<Rightarrow>
                         (respond 200 (Msg ''Password changed successfully.''),
                          update_id (id' req_user) (\<lambda>r. r\<lparr>password := hashedPassword\<rparr>) w))))"

text \<open>
  \<^verbatim>\<open>authMiddleware\<close>. The header \<^verbatim>\<open>authorization\<close> is absent (\<open>None\<close>) or is given
  by its parts between single spaces, the result of \<^verbatim>\<open>split(' ')\<close>; element 1 of them is
  the token, \<^verbatim>\<open>undefined\<close> when there are fewer than two. The middleware answers the
  request, or attaches the user and calls \<^verbatim>\<open>next()\<close>.
\<close>

datatype outcome = Respond response | Next user

definition bearer :: "tokstr list option \<Rightarrow> tokstr option" where
  "bearer h = (case h of None \<Rightarrow> None
               | Some ps \<Rightarrow> if 1 < length ps then Some (ps ! 1) else None)"

definition authMiddleware :: "env \<Rightarrow> tokstr list option \<Rightarrow> world \<Rightarrow> outcome" where
  "authMiddleware en authorization w =
     (case bearer authorization of
        None \<Rightarrow> Respond (respond 401 (Msg ''Unauthorized''))
      | Some token \<Rightarrow>
          if is_empty_str token then Respond (respond 401 (Msg ''Unauthorized''))
          else (case jwt_verify token (JWT_SECRET en) (now en) of
                  Inl m \<Rightarrow> Respond (respond 401 (Msg ''Invalid token''))
                | Inr i \<Rightarrow>
                    (case findUnique_id w i of
                       None \<Rightarrow> Respond (respond 404 (Msg ''User not found''))
                     | Some u \<Rightarrow> Next u)))"

section \<open>The consistency of the OTP columns\<close>

text \<open>The code and its expiry are both set or both \<^verbatim>\<open>null\<close>, in one row and in all.\<close>

definition otp_consistent :: "user \<Rightarrow> bool" where
  "otp_consistent u = ((otp u = None) = (otpExpiry u = None))"

definition otp_invariant :: "world \<Rightarrow> bool" where
  "otp_invariant w = list_all otp_consistent (users w)"

section \<open>Example data\<close>

text \<open>
  A stand-in for bcrypt, a clock reading and an account that waits for its verification,
  for the concrete runs below.
\<close>

definition ex_hash :: "string \<Rightarrow> string" where
  "ex_hash p = ''$2b$10$'' @ p"

definition ex_compare :: "string \<Rightarrow> string \<Rightarrow> bool" where
  "ex_compare p h = (h = ex_hash p)"

definition ex_env :: "int \<Rightarrow> string option \<Rightarrow> env" where
  "ex_env t m =
     \<lparr>now = t, Math_random = 1 / 2, sendOTP = m, bcrypt_hash = ex_hash,
      bcrypt_compare = ex_compare, new_id = ''u2'',
      prisma_error = ''Invalid prisma.user.create() invocation'',
      JWT_SECRET = Some ''s3cret''\<rparr>"

definition alice :: user where
  "alice =
     \<lparr>id' = ''u1'', fullName = ''Alice'', email = ''a@u.edu'', password = ex_hash ''pw1'',
      isVerified = False, otp = Some ''482910'', otpExpiry = Some 600000\<rparr>"

definition ex_world :: world where
  "ex_world = \<lparr>users = [alice], trace = []\<rparr>"

section \<open>Facts about the store\<close>

lemma find_update_row:
  "(\<And>u. p u \<Longrightarrow> p (f u)) \<Longrightarrow> find p (update_row p f us) = map_option f (find p us)"
  by (induction us) auto

lemma findUnique_email_update_email:
  "(\<And>r. email (f r) = email r) \<Longrightarrow>
   findUnique_email (update_email e f w) e = map_option f (findUnique_email w e)"
  by (simp add: findUnique_email_def update_email_def find_update_row)

lemma find_append_new:
  "find p us = None \<Longrightarrow> p u \<Longrightarrow> find p (us @ [u]) = Some u"
  by (induction us) (auto split: if_splits)

lemma list_all_update_row:
  "list_all P us \<Longrightarrow> (\<And>u. P u \<Longrightarrow> P (f u)) \<Longrightarrow> list_all P (update_row p f us)"
  by (induction us) auto

lemma otp_rejected_set:
  "otp u = Some c \<Longrightarrow> otpExpiry u = Some x \<Longrightarrow>
   otp_rejected u v t = (\<not> (v = JStr c \<and> t \<le> x))"
  by (auto simp: otp_rejected_def strict_eq_def js_of_column_def date_lt_def)

lemma otp_rejected_null_string:
  "otp u = None \<Longrightarrow> otp_rejected u (JStr c) t"
  by (simp add: otp_rejected_def strict_eq_def js_of_column_def)

lemma otp_rejected_null_truthy:
  "otp u = None \<Longrightarrow> truthy v \<Longrightarrow> otp_rejected u v t"
  by (cases v) (simp_all add: otp_rejected_def strict_eq_def js_of_column_def)

lemma otp_rejected_cleared:
  "otp u = None \<Longrightarrow> otpExpiry u = None \<Longrightarrow> 0 < t \<Longrightarrow> otp_rejected u v t"
  by (simp add: otp_rejected_def date_lt_def)

lemma otp_invariant_update_email:
  "otp_invariant w \<Longrightarrow> (\<And>u. otp_consistent u \<Longrightarrow> otp_consistent (f u)) \<Longrightarrow>
   otp_invariant (update_email e f w)"
  by (simp add: otp_invariant_def update_email_def list_all_update_row)

lemma otp_invariant_update_id:
  "otp_invariant w \<Longrightarrow> (\<And>u. otp_consistent u \<Longrightarrow> otp_consistent (f u)) \<Longrightarrow>
   otp_invariant (update_id i f w)"
  by (simp add: otp_invariant_def update_id_def list_all_update_row)

lemma otp_invariant_insert_row:
  "otp_invariant w \<Longrightarrow> otp_consistent u \<Longrightarrow> otp_invariant (insert_row u w)"
  by (simp add: otp_invariant_def insert_row_def)

lemma otp_invariant_trace [simp]:
  "otp_invariant (w\<lparr>trace := t\<rparr>) = otp_invariant w"
  by (simp add: otp_invariant_def)

lemma otp_invariant_register:
  "otp_invariant w \<Longrightarrow> otp_invariant (snd (register en n e p w))"
  by (auto simp: register_def Let_def otp_invariant_insert_row otp_consistent_def create_def
      prisma_create_def split: option.splits sum.splits jsval.splits)

lemma otp_invariant_verifyOTP:
  "otp_invariant w \<Longrightarrow> otp_invariant (snd (verifyOTP en e v q w))"
  by (simp add: verifyOTP_def otp_invariant_update_email otp_consistent_def
      split: option.splits)

lemma otp_invariant_resendOTP:
  "otp_invariant w \<Longrightarrow> otp_invariant (snd (resendOTP en e w))"
  by (simp add: resendOTP_def Let_def otp_invariant_update_email otp_consistent_def
      split: option.splits)

lemma otp_invariant_forgotPassword:
  "otp_invariant w \<Longrightarrow> otp_invariant (snd (forgotPassword en e w))"
  by (simp add: forgotPassword_def Let_def otp_invariant_update_email otp_consistent_def
      split: option.splits)

lemma otp_invariant_resetPassword:
  "otp_invariant w \<Longrightarrow> otp_invariant (snd (resetPassword en e v p w))"
  by (simp add: resetPassword_def otp_invariant_update_email otp_consistent_def
      split: option.splits sum.splits)

lemma otp_consistent_password:
  "otp_consistent u \<Longrightarrow> otp_consistent (u\<lparr>password := h\<rparr>)"
  by (simp add: otp_consistent_def)

lemma otp_invariant_changePassword:
  "otp_invariant w \<Longrightarrow> otp_invariant (snd (changePassword en r c p w))"
  by (simp add: changePassword_def otp_invariant_update_id otp_consistent_password
      split: option.splits sum.splits)

section \<open>Properties of the identity and session handlers\<close>

text \<open>
  C1 (as amended). For an account with a stored code and a stored expiry, the OTP test of
  \<^verbatim>\<open>verifyOTP\<close> and \<^verbatim>\<open>resetPassword\<close> passes iff the supplied value is the string
  that is stored and the current time is at or before the stored expiry: the request is
  answered ``Invalid or expired OTP'' exactly when the codes differ or the time is strictly
  after the expiry.
\<close>

theorem otp_accepted_iff_match_and_not_after_expiry:
  assumes "findUnique_email w e = Some u" and "otp u = Some c" and "otpExpiry u = Some x"
  shows "(\<not> otp_rejected u v (now en)) = (v = JStr c \<and> now en \<le> x)
       \<and> (fst (resetPassword en e v p w) = InvalidOrExpiredOtp) = (\<not> (v = JStr c \<and> now en \<le> x))
       \<and> (e \<noteq> [] \<and> truthy v \<and> truthy q \<longrightarrow>
            (fst (verifyOTP en e v q w) = InvalidOrExpiredOtp) = (\<not> (v = JStr c \<and> now en \<le> x)))"
proof -
  have rej: "otp_rejected u v (now en) = (\<not> (v = JStr c \<and> now en \<le> x))"
    using assms(2,3) by (rule otp_rejected_set)
  have reset: "(fst (resetPassword en e v p w) = InvalidOrExpiredOtp) = otp_rejected u v (now en)"
    using assms(1)
    by (simp add: resetPassword_def InvalidOrExpiredOtp_def respond_def split: sum.splits)
  have verify: "(fst (verifyOTP en e v q w) = InvalidOrExpiredOtp) = otp_rejected u v (now en)"
    if "e \<noteq> []" "truthy v" "truthy q"
    using assms(1) that by (simp add: verifyOTP_def InvalidOrExpiredOtp_def respond_def)
  show ?thesis using rej reset verify by simp
qed

theorem otp_accepted_iff_match_and_not_after_expiry_witness:
  "findUnique_email ex_world ''a@u.edu'' = Some alice \<and> otp alice = Some ''482910''
   \<and> otpExpiry alice = Some 600000
   \<and> fst (resetPassword (ex_env 600001 None) ''a@u.edu'' (JStr ''482910'') (JStr ''pw2'') ex_world)
       = InvalidOrExpiredOtp
   \<and> fst (verifyOTP (ex_env 599999 None) ''a@u.edu'' (JStr ''482910'') (JStr ''register'') ex_world)
       \<noteq> InvalidOrExpiredOtp"
proof -
  have f: "findUnique_email ex_world ''a@u.edu'' = Some alice"
    by (simp add: findUnique_email_def ex_world_def alice_def)
  have c: "otp alice = Some ''482910''" and x: "otpExpiry alice = Some 600000"
    by (simp_all add: alice_def)
  have late: "now (ex_env 600001 None) = 600001" and early: "now (ex_env 599999 None) = 599999"
    by (simp_all add: ex_env_def)
  show ?thesis
    using f c x
      otp_accepted_iff_match_and_not_after_expiry [OF f c x,
        of "JStr ''482910''" "ex_env 600001 None" "JStr ''pw2''" "JStr ''register''"]
      otp_accepted_iff_match_and_not_after_expiry [OF f c x,
        of "JStr ''482910''" "ex_env 599999 None" "JStr ''pw2''" "JStr ''register''"]
    by (simp add: late early)
qed

text \<open>
  C1 as stated fails at the instant of the expiry: the stored code is supplied when the
  clock reads exactly \<^verbatim>\<open>otpExpiry\<close>, which is not strictly before it, and both handlers
  accept it.
\<close>

theorem otp_accepted_at_expiry_counterexample:
  "otp alice = Some ''482910'' \<and> otpExpiry alice = Some (now (ex_env 600000 None))
   \<and> fst (verifyOTP (ex_env 600000 None) ''a@u.edu'' (JStr ''482910'') (JStr ''register'') ex_world)
       = respond 200 (Msg ''Email verified successfully'')
   \<and> fst (resetPassword (ex_env 600000 None) ''a@u.edu'' (JStr ''482910'') (JStr ''pw2'') ex_world)
       = respond 200 (Msg ''Password reset successfully. You can now log in.'')"
  by (simp add: verifyOTP_def resetPassword_def findUnique_email_def ex_world_def alice_def
      ex_env_def otp_rejected_def strict_eq_def js_of_column_def date_lt_def
      await_bcrypt_hash_def)

text \<open>
  C2 (as amended). For an account that is not yet verified, \<^verbatim>\<open>verifyOTP\<close> with purpose
  \<^verbatim>\<open>register\<close> and the stored code, at or before the expiry, answers 200, sets
  \<^verbatim>\<open>isVerified\<close> and clears the code and the expiry. A second call with the same code
  is answered ``Invalid or expired OTP'', whatever the clock reads, and changes nothing.
\<close>

theorem verifyOTP_register_then_replay_rejected:
  assumes "findUnique_email w e = Some u" and "e \<noteq> []" and "c \<noteq> []"
    and "otp u = Some c" and "otpExpiry u = Some x" and "now en \<le> x" and "\<not> isVerified u"
  shows "fst (verifyOTP en e (JStr c) (JStr ''register'') w)
           = respond 200 (Msg ''Email verified successfully'')
       \<and> findUnique_email (snd (verifyOTP en e (JStr c) (JStr ''register'') w)) e
           = Some (u\<lparr>isVerified := True, otp := None, otpExpiry := None\<rparr>)
       \<and> (\<forall>en'. verifyOTP en' e (JStr c) (JStr ''register'')
                   (snd (verifyOTP en e (JStr c) (JStr ''register'') w))
                 = (InvalidOrExpiredOtp, snd (verifyOTP en e (JStr c) (JStr ''register'') w)))"
proof -
  let ?f = "\<lambda>r. r\<lparr>isVerified := True, otp := None, otpExpiry := None\<rparr>"
  have acc: "\<not> otp_rejected u (JStr c) (now en)"
    using assms(4,5,6) by (simp add: otp_rejected_set)
  have first: "verifyOTP en e (JStr c) (JStr ''register'') w
      = (respond 200 (Msg ''Email verified successfully''), update_email e ?f w)"
    using assms(1,2,3,7) acc by (simp add: verifyOTP_def strict_eq_def)
  have found: "findUnique_email (update_email e ?f w) e = Some (?f u)"
    using assms(1) by (simp add: findUnique_email_update_email)
  have rej: "otp_rejected (?f u) (JStr c) t" for t
    by (rule otp_rejected_null_string) simp
  have second: "verifyOTP en' e (JStr c) (JStr ''register'') (update_email e ?f w)
      = (InvalidOrExpiredOtp, update_email e ?f w)" for en'
    using assms(2,3) found rej
    by (simp add: verifyOTP_def InvalidOrExpiredOtp_def)
  show ?thesis using first found second by simp
qed

theorem verifyOTP_register_then_replay_rejected_witness:
  "findUnique_email ex_world ''a@u.edu'' = Some alice \<and> otp alice = Some ''482910''
   \<and> otpExpiry alice = Some 600000 \<and> now (ex_env 1000 None) \<le> 600000 \<and> \<not> isVerified alice
   \<and> fst (verifyOTP (ex_env 1000 None) ''a@u.edu'' (JStr ''482910'') (JStr ''register'') ex_world)
       = respond 200 (Msg ''Email verified successfully'')
   \<and> fst (verifyOTP (ex_env 2000 None) ''a@u.edu'' (JStr ''482910'') (JStr ''register'')
         (snd (verifyOTP (ex_env 1000 None) ''a@u.edu'' (JStr ''482910'') (JStr ''register'')
            ex_world)))
       = InvalidOrExpiredOtp"
proof -
  have f: "findUnique_email ex_world ''a@u.edu'' = Some alice"
    by (simp add: findUnique_email_def ex_world_def alice_def)
  have e: "''a@u.edu'' \<noteq> []" and c: "''482910'' \<noteq> []" by simp_all
  have o: "otp alice = Some ''482910''" and x: "otpExpiry alice = Some 600000"
    and v: "\<not> isVerified alice"
    by (simp_all add: alice_def)
  have t: "now (ex_env 1000 None) \<le> 600000" by (simp add: ex_env_def)
  show ?thesis
    using f o x t v verifyOTP_register_then_replay_rejected [OF f e c o x t v]
    by simp
qed

text \<open>
  C2 as stated fails: after a successful verification the stored code is cleared, so the
  second call with the same code is answered ``Invalid or expired OTP'' and not
  ``Already verified''.
\<close>

theorem verifyOTP_replay_not_already_verified_counterexample:
  "fst (verifyOTP (ex_env 2000 None) ''a@u.edu'' (JStr ''482910'') (JStr ''register'')
         (snd (verifyOTP (ex_env 1000 None) ''a@u.edu'' (JStr ''482910'') (JStr ''register'')
            ex_world)))
     = InvalidOrExpiredOtp
   \<and> InvalidOrExpiredOtp \<noteq> AlreadyVerified"
  by (simp add: verifyOTP_def findUnique_email_def update_email_def ex_world_def alice_def
      ex_env_def otp_rejected_def strict_eq_def js_of_column_def date_lt_def
      InvalidOrExpiredOtp_def AlreadyVerified_def respond_def)

text \<open>
  C3 (as amended). In \<^verbatim>\<open>register\<close>, for an e-mail address that is not bound yet, the
  delivery of the OTP is attempted before the account is created: the request first calls
  \<^verbatim>\<open>sendOTP\<close>, and an account exists afterwards only if that call resolved, the
  creation then being the next effect. If the delivery fails, the request is answered 500
  ``Registration failed'' and no account is created.
\<close>

theorem register_sends_before_creating:
  assumes "findUnique_email w e = None"
  shows "(trace (snd (register en n e p w)) = trace w @ [SendOTP e (generateOTP (Math_random en))]
          \<or> trace (snd (register en n e p w))
              = trace w @ [SendOTP e (generateOTP (Math_random en)), Create e])
       \<and> (findUnique_email (snd (register en n e p w)) e \<noteq> None \<longrightarrow>
            sendOTP en = None
          \<and> trace (snd (register en n e p w))
              = trace w @ [SendOTP e (generateOTP (Math_random en)), Create e])
       \<and> (\<forall>m. sendOTP en = Some m \<longrightarrow>
            fst (register en n e p w) = respond 500 (MsgError ''Registration failed'' m)
          \<and> trace (snd (register en n e p w))
              = trace w @ [SendOTP e (generateOTP (Math_random en))]
          \<and> users (snd (register en n e p w)) = users w
          \<and> findUnique_email (snd (register en n e p w)) e = None)"
proof -
  let ?c = "generateOTP (Math_random en)"
  let ?w1 = "w\<lparr>trace := trace w @ [SendOTP e ?c]\<rparr>"
  have nf: "findUnique_email ?w1 e = None"
    using assms by (simp add: findUnique_email_def)
  have order: "trace (snd (register en n e p w)) = trace w @ [SendOTP e ?c]
      \<or> trace (snd (register en n e p w)) = trace w @ [SendOTP e ?c, Create e]"
    using assms
    by (auto simp: register_def Let_def prisma_create_def create_def insert_row_def
        split: option.splits sum.splits jsval.splits)
  have only_after: "sendOTP en = None
      \<and> trace (snd (register en n e p w)) = trace w @ [SendOTP e ?c, Create e]"
    if "findUnique_email (snd (register en n e p w)) e \<noteq> None"
    using assms that nf
    by (auto simp: register_def Let_def prisma_create_def create_def insert_row_def
        split: option.splits sum.splits jsval.splits)
  have failed: "fst (register en n e p w) = respond 500 (MsgError ''Registration failed'' m)
      \<and> trace (snd (register en n e p w)) = trace w @ [SendOTP e ?c]
      \<and> users (snd (register en n e p w)) = users w
      \<and> findUnique_email (snd (register en n e p w)) e = None"
    if "sendOTP en = Some m" for m
    using assms that nf by (simp add: register_def Let_def findUnique_email_def)
  show ?thesis using order only_after failed by blast
qed

theorem register_sends_before_creating_witness:
  "findUnique_email ex_world ''b@u.edu'' = None
   \<and> findUnique_email
       (snd (register (ex_env 0 None) (JStr ''Bob'') ''b@u.edu'' (JStr ''pw'') ex_world))
       ''b@u.edu'' \<noteq> None
   \<and> sendOTP (ex_env 0 None) = None
   \<and> trace (snd (register (ex_env 0 None) (JStr ''Bob'') ''b@u.edu'' (JStr ''pw'') ex_world))
       = [SendOTP ''b@u.edu'' (generateOTP (1 / 2)), Create ''b@u.edu'']
   \<and> sendOTP (ex_env 0 (Some ''ETIMEDOUT'')) = Some ''ETIMEDOUT''
   \<and> users (snd (register (ex_env 0 (Some ''ETIMEDOUT'')) (JStr ''Bob'') ''b@u.edu''
        (JStr ''pw'') ex_world))
       = [alice]"
proof -
  have f: "findUnique_email ex_world ''b@u.edu'' = None"
    by (simp add: findUnique_email_def ex_world_def alice_def)
  have r: "sendOTP (ex_env 0 (Some ''ETIMEDOUT'')) = Some ''ETIMEDOUT''"
    and m: "Math_random (ex_env 0 None) = 1 / 2"
    by (simp_all add: ex_env_def)
  have w: "trace ex_world = []" "users ex_world = [alice]" by (simp_all add: ex_world_def)
  have g: "findUnique_email
      (snd (register (ex_env 0 None) (JStr ''Bob'') ''b@u.edu'' (JStr ''pw'') ex_world))
      ''b@u.edu'' \<noteq> None"
    by (simp add: register_def Let_def findUnique_email_def ex_world_def alice_def ex_env_def
        await_bcrypt_hash_def prisma_create_def create_def insert_row_def)
  show ?thesis
    using f g r
      register_sends_before_creating [OF f, of "ex_env 0 None" "JStr ''Bob''" "JStr ''pw''"]
      register_sends_before_creating
        [OF f, of "ex_env 0 (Some ''ETIMEDOUT'')" "JStr ''Bob''" "JStr ''pw''"]
    by (simp add: m w)
qed

text \<open>
  C3 as stated fails: when the delivery fails, \<^verbatim>\<open>register\<close> answers 500 and the store
  holds no account for the address.
\<close>

theorem register_failed_delivery_creates_nothing_counterexample:
  "sendOTP (ex_env 0 (Some ''ETIMEDOUT'')) \<noteq> None
   \<and> status (fst (register (ex_env 0 (Some ''ETIMEDOUT'')) (JStr ''Bob'') ''b@u.edu''
        (JStr ''pw'') ex_world))
       = 500
   \<and> findUnique_email
       (snd (register (ex_env 0 (Some ''ETIMEDOUT'')) (JStr ''Bob'') ''b@u.edu''
          (JStr ''pw'') ex_world))
       ''b@u.edu'' = None"
  by (simp add: register_def findUnique_email_def ex_world_def alice_def ex_env_def
      respond_def Let_def)

text \<open>
  C4. \<^verbatim>\<open>login\<close> does not give the same answer in the two cases for every request. For
  a request without a password, an address that no account has is answered 400 ``Invalid
  credentials'' at the test \<^verbatim>\<open>!user\<close>, while the address of an account reaches
  \<^verbatim>\<open>bcrypt.compare\<close>, which rejects, and is answered 500 ``Login failed'': the two
  answers tell whether the account exists.
\<close>

theorem login_without_password_reveals_account:
  "findUnique_email ex_world ''b@u.edu'' = None
   \<and> login (ex_env 0 None) ''b@u.edu'' JUndefined ex_world
       = (respond 400 (Msg ''Invalid credentials''), ex_world)
   \<and> findUnique_email ex_world ''a@u.edu'' = Some alice
   \<and> login (ex_env 0 None) ''a@u.edu'' JUndefined ex_world
       = (respond 500 (MsgError ''Login failed'' ''data and hash arguments required''),
          ex_world)"
  by (simp add: login_def findUnique_email_def ex_world_def alice_def
      await_bcrypt_compare_def)

text \<open>
  C5. \<^verbatim>\<open>register\<close> answers 400 ``Email already in use'' and leaves the store as it is
  whenever the e-mail address is bound to an account, whatever else the request holds. When
  the address is free, the delivery of the OTP resolves and the name and the password are
  strings, the answer is 201 and the account now bound to the address is the one in the
  answer: it is not verified, holds the generated code, and its expiry is 10 minutes after
  the clock reading of the request.
\<close>

theorem register_rejects_bound_email_else_creates_pending:
  "(\<forall>u. findUnique_email w e = Some u \<longrightarrow> register en n e p w = (ValidationError_EmailInUse, w))
   \<and> (findUnique_email w e = None \<and> sendOTP en = None \<longrightarrow>
        (\<exists>u. findUnique_email (snd (register en (JStr a) e (JStr b) w)) e = Some u
           \<and> fst (register en (JStr a) e (JStr b) w)
               = respond 201 (MsgUser ''OTP sent to email. Please verify to continue.'' u)
           \<and> isVerified u = False
           \<and> otp u = Some (generateOTP (Math_random en))
           \<and> otpExpiry u = Some (now en + 10 * 60 * 1000)))"
proof -
  have bound: "register en n e p w = (ValidationError_EmailInUse, w)"
    if "findUnique_email w e = Some u" for u
    using that by (simp add: register_def ValidationError_EmailInUse_def)
  let ?u = "create en a e (bcrypt_hash en b) (generateOTP (Math_random en))
              (now en + 10 * 60 * 1000)"
  have fresh: "findUnique_email (snd (register en (JStr a) e (JStr b) w)) e = Some ?u
      \<and> fst (register en (JStr a) e (JStr b) w)
          = respond 201 (MsgUser ''OTP sent to email. Please verify to continue.'' ?u)"
    if "findUnique_email w e = None" "sendOTP en = None"
  proof -
    have "find (\<lambda>u. email u = e) (users w @ [?u]) = Some ?u"
      using that(1) by (intro find_append_new) (simp_all add: findUnique_email_def create_def)
    then show ?thesis
      using that
      by (simp add: register_def Let_def insert_row_def findUnique_email_def
          await_bcrypt_hash_def prisma_create_def)
  qed
  have props: "isVerified ?u = False \<and> otp ?u = Some (generateOTP (Math_random en))
      \<and> otpExpiry ?u = Some (now en + 10 * 60 * 1000)"
    by (simp add: create_def default_isVerified_def)
  show ?thesis using bound fresh props by blast
qed

theorem register_rejects_bound_email_else_creates_pending_witness:
  "findUnique_email ex_world ''a@u.edu'' = Some alice
   \<and> register (ex_env 0 None) (JStr ''Eve'') ''a@u.edu'' (JStr ''pw'') ex_world
       = (ValidationError_EmailInUse, ex_world)
   \<and> findUnique_email ex_world ''b@u.edu'' = None \<and> sendOTP (ex_env 0 None) = None
   \<and> (\<exists>u. findUnique_email
             (snd (register (ex_env 0 None) (JStr ''Bob'') ''b@u.edu'' (JStr ''pw'') ex_world))
             ''b@u.edu'' = Some u
          \<and> isVerified u = False \<and> otp u = Some ''550000'' \<and> otpExpiry u = Some 600000)"
proof -
  have f: "findUnique_email ex_world ''a@u.edu'' = Some alice"
    and n: "findUnique_email ex_world ''b@u.edu'' = None"
    by (simp_all add: findUnique_email_def ex_world_def alice_def)
  have s: "sendOTP (ex_env 0 None) = None" and t: "now (ex_env 0 None) = 0"
    and m: "Math_random (ex_env 0 None) = 1 / 2"
    by (simp_all add: ex_env_def)
  have g: "generateOTP (1 / 2) = ''550000''"
    by (simp add: generateOTP_def)
  show ?thesis
    using f n s
      register_rejects_bound_email_else_creates_pending
        [of ex_world "''a@u.edu''" "ex_env 0 None" "JStr ''Eve''" "JStr ''pw''"]
      register_rejects_bound_email_else_creates_pending
        [of ex_world "''b@u.edu''" "ex_env 0 None" "JStr ''Bob''" "JStr ''pw''" "''Bob''" "''pw''"]
    by (simp add: t m g) blast
qed

text \<open>
  C6. The user in the answer of a successful \<^verbatim>\<open>register\<close> is the row that
  \<^verbatim>\<open>prisma.user.create\<close> returned, and the user in the answer of a successful
  \<^verbatim>\<open>login\<close> is the row that \<^verbatim>\<open>prisma.user.findUnique\<close> returned: both carry the
  column \<^verbatim>\<open>password\<close>, which holds the hash. Here Bob registers with the password
  \<^verbatim>\<open>pw\<close>, and Alice, once verified, logs in with \<^verbatim>\<open>pw1\<close>.
\<close>

theorem register_and_login_answer_with_password_hash:
  "json (fst (register (ex_env 0 None) (JStr ''Bob'') ''b@u.edu'' (JStr ''pw'') ex_world))
     = MsgUser ''OTP sent to email. Please verify to continue.''
         \<lparr>id' = ''u2'', fullName = ''Bob'', email = ''b@u.edu'', password = ''$2b$10$pw'',
          isVerified = False, otp = Some ''550000'', otpExpiry = Some 600000\<rparr>
   \<and> json (fst (login (ex_env 5000 None) ''a@u.edu'' (JStr ''pw1'')
        \<lparr>users = [alice\<lparr>isVerified := True, otp := None, otpExpiry := None\<rparr>], trace = []\<rparr>))
     = UserToken
         \<lparr>id' = ''u1'', fullName = ''Alice'', email = ''a@u.edu'', password = ''$2b$10$pw1'',
          isVerified = True, otp = None, otpExpiry = None\<rparr>
         (Signed ''s3cret'' ''u1'' 5 604805)"
  by (simp add: register_def login_def findUnique_email_def ex_world_def alice_def ex_env_def
      ex_hash_def ex_compare_def create_def default_isVerified_def insert_row_def
      await_bcrypt_hash_def await_bcrypt_compare_def prisma_create_def
      generateOTP_def generateToken_def jwt_sign_def respond_def Let_def)

text \<open>
  C7. A token that \<^verbatim>\<open>generateToken\<close> issues for a user under the configured secret
  expires 7 days (604800 seconds) after its issue. Verified under the same secret while the
  clock, in whole seconds, is before that expiry, it yields the identifier of the user, and
  \<^verbatim>\<open>authMiddleware\<close> goes on to look that identifier up; verified at or after the
  expiry, it fails and \<^verbatim>\<open>authMiddleware\<close> answers 401 ``Invalid token''.
\<close>

theorem session_token_roundtrip:
  assumes "JWT_SECRET en = Some k" and "k \<noteq> []" and "JWT_SECRET en' = Some k"
  shows "\<exists>tok. generateToken en u = Inr tok
       \<and> tok = Signed k (id' u) (now en div 1000) (now en div 1000 + 604800)
       \<and> (now en' div 1000 < now en div 1000 + 604800 \<longrightarrow>
            jwt_verify tok (JWT_SECRET en') (now en') = Inr (id' u)
          \<and> authMiddleware en' (Some [Plain ''Bearer'', tok]) w
              = (case findUnique_id w (id' u) of
                   None \<Rightarrow> Respond AccountNotFound | Some a \<Rightarrow> Next a))
       \<and> (now en div 1000 + 604800 \<le> now en' div 1000 \<longrightarrow>
            jwt_verify tok (JWT_SECRET en') (now en') = Inl ''jwt expired''
          \<and> authMiddleware en' (Some [Plain ''Bearer'', tok]) w = Respond InvalidToken)"
proof -
  let ?tok = "Signed k (id' u) (now en div 1000) (now en div 1000 + 604800)"
  have issue: "generateToken en u = Inr ?tok"
    using assms(1,2) by (simp add: generateToken_def jwt_sign_def Let_def)
  have b: "bearer (Some [Plain ''Bearer'', ?tok]) = Some ?tok"
    by (simp add: bearer_def)
  have live: "jwt_verify ?tok (JWT_SECRET en') (now en') = Inr (id' u)"
    if "now en' div 1000 < now en div 1000 + 604800"
    using assms(2,3) that by (simp add: jwt_verify_def)
  have dead: "jwt_verify ?tok (JWT_SECRET en') (now en') = Inl ''jwt expired''"
    if "now en div 1000 + 604800 \<le> now en' div 1000"
    using assms(2,3) that by (simp add: jwt_verify_def)
  have pass: "authMiddleware en' (Some [Plain ''Bearer'', ?tok]) w
      = (case findUnique_id w (id' u) of None \<Rightarrow> Respond AccountNotFound | Some a \<Rightarrow> Next a)"
    if "now en' div 1000 < now en div 1000 + 604800"
    using live [OF that] b
    by (simp add: authMiddleware_def is_empty_str_def AccountNotFound_def split: option.splits)
  have stop: "authMiddleware en' (Some [Plain ''Bearer'', ?tok]) w = Respond InvalidToken"
    if "now en div 1000 + 604800 \<le> now en' div 1000"
    using dead [OF that] b
    by (simp add: authMiddleware_def is_empty_str_def InvalidToken_def)
  show ?thesis using issue live dead pass stop by simp
qed

theorem session_token_roundtrip_witness:
  "JWT_SECRET (ex_env 5000 None) = Some ''s3cret''
   \<and> generateToken (ex_env 5000 None) alice = Inr (Signed ''s3cret'' ''u1'' 5 604805)
   \<and> authMiddleware (ex_env 604804999 None)
        (Some [Plain ''Bearer'', Signed ''s3cret'' ''u1'' 5 604805]) ex_world = Next alice
   \<and> authMiddleware (ex_env 604805000 None)
        (Some [Plain ''Bearer'', Signed ''s3cret'' ''u1'' 5 604805]) ex_world
       = Respond InvalidToken"
proof -
  have k: "JWT_SECRET (ex_env 5000 None) = Some ''s3cret''"
    and k1: "JWT_SECRET (ex_env 604804999 None) = Some ''s3cret''"
    and k2: "JWT_SECRET (ex_env 604805000 None) = Some ''s3cret''"
    and ne: "''s3cret'' \<noteq> []"
    by (simp_all add: ex_env_def)
  have t: "now (ex_env 5000 None) = 5000" "now (ex_env 604804999 None) = 604804999"
    "now (ex_env 604805000 None) = 604805000"
    by (simp_all add: ex_env_def)
  have f: "findUnique_id ex_world ''u1'' = Some alice" and i: "id' alice = ''u1''"
    by (simp_all add: findUnique_id_def ex_world_def alice_def)
  show ?thesis
    using k session_token_roundtrip [OF k ne k1, of alice ex_world]
      session_token_roundtrip [OF k ne k2, of alice ex_world]
    by (simp add: t f i)
qed

text \<open>
  C8. If in every row of the store the code and its expiry are both set or both
  \<^verbatim>\<open>null\<close>, then this is so again after \<^verbatim>\<open>register\<close>, \<^verbatim>\<open>verifyOTP\<close>,
  \<^verbatim>\<open>resendOTP\<close>, \<^verbatim>\<open>forgotPassword\<close>, \<^verbatim>\<open>resetPassword\<close> and
  \<^verbatim>\<open>changePassword\<close>, whatever the request holds and however it is answered.
\<close>

theorem otp_pair_invariant_preserved:
  assumes "otp_invariant w"
  shows "otp_invariant (snd (register en n e p w))
       \<and> otp_invariant (snd (verifyOTP en e v q w))
       \<and> otp_invariant (snd (resendOTP en e w))
       \<and> otp_invariant (snd (forgotPassword en e w))
       \<and> otp_invariant (snd (resetPassword en e v p w))
       \<and> otp_invariant (snd (changePassword en r c p w))"
  using assms
  by (intro conjI otp_invariant_register otp_invariant_verifyOTP otp_invariant_resendOTP
      otp_invariant_forgotPassword otp_invariant_resetPassword otp_invariant_changePassword)

theorem otp_pair_invariant_preserved_witness:
  "otp_invariant ex_world
   \<and> otp_invariant (snd (register (ex_env 0 None) (JStr ''Bob'') ''b@u.edu'' (JStr ''pw'') ex_world))
   \<and> otp_invariant
       (snd (verifyOTP (ex_env 0 None) ''a@u.edu'' (JStr ''482910'') (JStr ''register'') ex_world))
   \<and> otp_invariant (snd (resendOTP (ex_env 0 None) ''a@u.edu'' ex_world))
   \<and> otp_invariant (snd (forgotPassword (ex_env 0 None) ''a@u.edu'' ex_world))
   \<and> otp_invariant
       (snd (resetPassword (ex_env 0 None) ''a@u.edu'' (JStr ''482910'') (JStr ''pw2'') ex_world))
   \<and> otp_invariant (snd (changePassword (ex_env 0 None) alice (JStr ''pw1'') (JStr ''pw2'') ex_world))"
proof -
  have i: "otp_invariant ex_world"
    by (simp add: otp_invariant_def otp_consistent_def ex_world_def alice_def)
  show ?thesis
    using i otp_pair_invariant_preserved [OF i, of "ex_env 0 None" "JStr ''Bob''" "''b@u.edu''" "JStr ''pw''"]
      otp_pair_invariant_preserved [OF i, of "ex_env 0 None" "JStr ''Bob''" "''a@u.edu''" "JStr ''pw2''"
        "JStr ''482910''" "JStr ''register''" alice "JStr ''pw1''"]
    by simp
qed

text \<open>
  C9 (as amended). \<^verbatim>\<open>authMiddleware\<close> has three different failing answers: 401
  ``Unauthorized'' when the header is absent or has no second part or an empty one (no
  token); 401 ``Invalid token'' when a token is there but is not a well-formed token, is
  signed with another key than the configured one, or has expired; 404 ``User not found''
  when the token verifies and no account has its identifier.
\<close>

theorem authMiddleware_three_failure_kinds:
  "(bearer h = None \<or> (\<exists>t. bearer h = Some t \<and> is_empty_str t) \<longrightarrow>
      authMiddleware en h w = Respond Unauthorized)
   \<and> (\<forall>s. bearer h = Some (Plain s) \<and> s \<noteq> [] \<longrightarrow>
          authMiddleware en h w = Respond InvalidToken)
   \<and> (\<forall>k i a x. bearer h = Some (Signed k i a x)
          \<and> (JWT_SECRET en \<noteq> Some k \<or> k = [] \<or> x \<le> now en div 1000) \<longrightarrow>
          authMiddleware en h w = Respond InvalidToken)
   \<and> (\<forall>k i a x. bearer h = Some (Signed k i a x) \<and> JWT_SECRET en = Some k \<and> k \<noteq> []
          \<and> now en div 1000 < x \<and> findUnique_id w i = None \<longrightarrow>
          authMiddleware en h w = Respond AccountNotFound)
   \<and> Unauthorized \<noteq> InvalidToken \<and> InvalidToken \<noteq> AccountNotFound
   \<and> Unauthorized \<noteq> AccountNotFound"
proof -
  have none: "authMiddleware en h w = Respond Unauthorized"
    if "bearer h = None \<or> (\<exists>t. bearer h = Some t \<and> is_empty_str t)"
    using that by (auto simp: authMiddleware_def Unauthorized_def)
  have plain: "authMiddleware en h w = Respond InvalidToken"
    if "bearer h = Some (Plain s)" "s \<noteq> []" for s
    using that by (simp add: authMiddleware_def is_empty_str_def jwt_verify_def InvalidToken_def)
  have bad: "authMiddleware en h w = Respond InvalidToken"
    if "bearer h = Some (Signed k i a x)"
      "JWT_SECRET en \<noteq> Some k \<or> k = [] \<or> x \<le> now en div 1000" for k i a x
    using that
    by (auto simp: authMiddleware_def is_empty_str_def jwt_verify_def InvalidToken_def
        split: option.splits)
  have gone: "authMiddleware en h w = Respond AccountNotFound"
    if "bearer h = Some (Signed k i a x)" "JWT_SECRET en = Some k" "k \<noteq> []"
      "now en div 1000 < x" "findUnique_id w i = None" for k i a x
    using that
    by (simp add: authMiddleware_def is_empty_str_def jwt_verify_def AccountNotFound_def)
  have diff: "Unauthorized \<noteq> InvalidToken \<and> InvalidToken \<noteq> AccountNotFound
      \<and> Unauthorized \<noteq> AccountNotFound"
    by (simp add: Unauthorized_def InvalidToken_def AccountNotFound_def respond_def)
  show ?thesis using none plain bad gone diff by blast
qed

theorem authMiddleware_three_failure_kinds_witness:
  "bearer None = None
   \<and> authMiddleware (ex_env 5000 None) None ex_world = Respond Unauthorized
   \<and> bearer (Some [Plain ''Bearer'', Plain ''abc'']) = Some (Plain ''abc'')
   \<and> authMiddleware (ex_env 5000 None) (Some [Plain ''Bearer'', Plain ''abc'']) ex_world
       = Respond InvalidToken
   \<and> bearer (Some [Plain ''Bearer'', Signed ''other'' ''u1'' 5 604805])
       = Some (Signed ''other'' ''u1'' 5 604805)
   \<and> JWT_SECRET (ex_env 5000 None) \<noteq> Some ''other''
   \<and> authMiddleware (ex_env 5000 None)
        (Some [Plain ''Bearer'', Signed ''other'' ''u1'' 5 604805]) ex_world
       = Respond InvalidToken
   \<and> bearer (Some [Plain ''Bearer'', Signed ''s3cret'' ''u9'' 5 604805])
       = Some (Signed ''s3cret'' ''u9'' 5 604805)
   \<and> findUnique_id ex_world ''u9'' = None
   \<and> authMiddleware (ex_env 5000 None)
        (Some [Plain ''Bearer'', Signed ''s3cret'' ''u9'' 5 604805]) ex_world
       = Respond AccountNotFound"
proof -
  have b: "bearer None = None"
    "bearer (Some [Plain ''Bearer'', Plain ''abc'']) = Some (Plain ''abc'')"
    "bearer (Some [Plain ''Bearer'', Signed ''other'' ''u1'' 5 604805])
       = Some (Signed ''other'' ''u1'' 5 604805)"
    "bearer (Some [Plain ''Bearer'', Signed ''s3cret'' ''u9'' 5 604805])
       = Some (Signed ''s3cret'' ''u9'' 5 604805)"
    by (simp_all add: bearer_def)
  have k: "JWT_SECRET (ex_env 5000 None) = Some ''s3cret''" and t: "now (ex_env 5000 None) = 5000"
    by (simp_all add: ex_env_def)
  have f: "findUnique_id ex_world ''u9'' = None"
    by (simp add: findUnique_id_def ex_world_def alice_def)
  show ?thesis
    using authMiddleware_three_failure_kinds [of None "ex_env 5000 None" ex_world]
      authMiddleware_three_failure_kinds
        [of "Some [Plain ''Bearer'', Plain ''abc'']" "ex_env 5000 None" ex_world]
      authMiddleware_three_failure_kinds
        [of "Some [Plain ''Bearer'', Signed ''other'' ''u1'' 5 604805]" "ex_env 5000 None" ex_world]
      authMiddleware_three_failure_kinds
        [of "Some [Plain ''Bearer'', Signed ''s3cret'' ''u9'' 5 604805]" "ex_env 5000 None"
          ex_world]
    by (simp add: b k t f)
qed

text \<open>
  C9 as stated fails for a token that is present and malformed: the header
  \<^verbatim>\<open>Bearer abc\<close> is answered ``Invalid token'', not ``Unauthorized''.
\<close>

theorem authMiddleware_malformed_token_counterexample:
  "authMiddleware (ex_env 5000 None) (Some [Plain ''Bearer'', Plain ''abc'']) ex_world
     = Respond InvalidToken
   \<and> InvalidToken \<noteq> Unauthorized"
  by (simp add: authMiddleware_def bearer_def is_empty_str_def jwt_verify_def
      InvalidToken_def Unauthorized_def respond_def)

text \<open>
  C10. For an account whose stored code is \<^verbatim>\<open>null\<close>, \<^verbatim>\<open>resetPassword\<close> answers
  ``Invalid or expired OTP'' and changes nothing for every supplied code, whatever the new
  password is: for every string
  and every other value except JSON \<^verbatim>\<open>null\<close> at once, and for JSON \<^verbatim>\<open>null\<close> too
  when the expiry is \<^verbatim>\<open>null\<close> as well (as both are after a successful verification
  or reset) and the clock is after the epoch. \<^verbatim>\<open>verifyOTP\<close> does the same for every
  code and purpose that pass its test of required fields. In particular, after a successful
  \<^verbatim>\<open>resetPassword\<close> a second one with the same code is rejected.
\<close>

theorem cleared_otp_rejects_every_code:
  "(\<forall>u. findUnique_email w e = Some u \<and> otp u = None \<longrightarrow>
        (\<forall>c. resetPassword en e (JStr c) p w = (InvalidOrExpiredOtp, w))
      \<and> (v \<noteq> JNull \<or> (otpExpiry u = None \<and> 0 < now en) \<longrightarrow>
           resetPassword en e v p w = (InvalidOrExpiredOtp, w))
      \<and> (e \<noteq> [] \<and> truthy v \<and> truthy q \<longrightarrow>
           verifyOTP en e v q w = (InvalidOrExpiredOtp, w)))
   \<and> (\<forall>u c x. findUnique_email w e = Some u \<and> otp u = Some c \<and> otpExpiry u = Some x
          \<and> now en \<le> x \<longrightarrow>
        fst (resetPassword en e (JStr c) (JStr b) w)
          = respond 200 (Msg ''Password reset successfully. You can now log in.'')
      \<and> (\<forall>en' p'. resetPassword en' e (JStr c) p' (snd (resetPassword en e (JStr c) (JStr b) w))
            = (InvalidOrExpiredOtp, snd (resetPassword en e (JStr c) (JStr b) w))))"
proof -
  have rej: "otp_rejected u v (now en)"
    if "otp u = None" "v \<noteq> JNull \<or> (otpExpiry u = None \<and> 0 < now en)" for u
    using that
    by (cases v) (auto simp: otp_rejected_def strict_eq_def js_of_column_def date_lt_def)
  have reset_str: "resetPassword en'' e (JStr c) p'' w'' = (InvalidOrExpiredOtp, w'')"
    if "findUnique_email w'' e = Some u" "otp u = None" for u c en'' p'' w''
    using that otp_rejected_null_string [OF that(2)]
    by (simp add: resetPassword_def InvalidOrExpiredOtp_def)
  have reset_any: "resetPassword en e v p w = (InvalidOrExpiredOtp, w)"
    if "findUnique_email w e = Some u" "otp u = None"
      "v \<noteq> JNull \<or> (otpExpiry u = None \<and> 0 < now en)" for u
    using that(1) rej [OF that(2,3)]
    by (simp add: resetPassword_def InvalidOrExpiredOtp_def)
  have verify: "verifyOTP en e v q w = (InvalidOrExpiredOtp, w)"
    if "findUnique_email w e = Some u" "otp u = None" "e \<noteq> []" "truthy v" "truthy q" for u
    using that otp_rejected_null_truthy [OF that(2,4)]
    by (simp add: verifyOTP_def InvalidOrExpiredOtp_def)
  have replay: "fst (resetPassword en e (JStr c) (JStr b) w)
        = respond 200 (Msg ''Password reset successfully. You can now log in.'')
      \<and> (\<forall>en' p'. resetPassword en' e (JStr c) p' (snd (resetPassword en e (JStr c) (JStr b) w))
            = (InvalidOrExpiredOtp, snd (resetPassword en e (JStr c) (JStr b) w)))"
    if "findUnique_email w e = Some u" "otp u = Some c" "otpExpiry u = Some x" "now en \<le> x"
    for u c x
  proof -
    let ?f = "\<lambda>r. r\<lparr>password := bcrypt_hash en b, otp := None, otpExpiry := None\<rparr>"
    have acc: "\<not> otp_rejected u (JStr c) (now en)"
      using that(2,3,4) by (simp add: otp_rejected_set)
    have first: "resetPassword en e (JStr c) (JStr b) w
        = (respond 200 (Msg ''Password reset successfully. You can now log in.''),
           update_email e ?f w)"
      using that(1) acc by (simp add: resetPassword_def await_bcrypt_hash_def)
    have found: "findUnique_email (update_email e ?f w) e = Some (?f u)"
      using that(1) by (simp add: findUnique_email_update_email)
    have "resetPassword en' e (JStr c) p' (update_email e ?f w)
        = (InvalidOrExpiredOtp, update_email e ?f w)" for en' p'
      by (rule reset_str [OF found]) simp
    then show ?thesis using first by simp
  qed
  show ?thesis using reset_str reset_any verify replay by blast
qed

theorem cleared_otp_rejects_every_code_witness:
  "findUnique_email
      \<lparr>users = [alice\<lparr>isVerified := True, otp := None, otpExpiry := None\<rparr>], trace = []\<rparr>
      ''a@u.edu''
     = Some (alice\<lparr>isVerified := True, otp := None, otpExpiry := None\<rparr>)
   \<and> fst (resetPassword (ex_env 1000 None) ''a@u.edu'' (JStr ''482910'') (JStr ''pw2'')
        \<lparr>users = [alice\<lparr>isVerified := True, otp := None, otpExpiry := None\<rparr>], trace = []\<rparr>)
       = InvalidOrExpiredOtp
   \<and> fst (resetPassword (ex_env 1000 None) ''a@u.edu'' JNull (JStr ''pw2'')
        \<lparr>users = [alice\<lparr>isVerified := True, otp := None, otpExpiry := None\<rparr>], trace = []\<rparr>)
       = InvalidOrExpiredOtp
   \<and> fst (verifyOTP (ex_env 1000 None) ''a@u.edu'' (JStr ''482910'') (JStr ''forgot-password'')
        \<lparr>users = [alice\<lparr>isVerified := True, otp := None, otpExpiry := None\<rparr>], trace = []\<rparr>)
       = InvalidOrExpiredOtp
   \<and> findUnique_email ex_world ''a@u.edu'' = Some alice \<and> now (ex_env 1000 None) \<le> 600000
   \<and> fst (resetPassword (ex_env 2000 None) ''a@u.edu'' (JStr ''482910'') (JStr ''pw3'')
        (snd (resetPassword (ex_env 1000 None) ''a@u.edu'' (JStr ''482910'') (JStr ''pw2'') ex_world)))
       = InvalidOrExpiredOtp"
proof -
  let ?w = "\<lparr>users = [alice\<lparr>isVerified := True, otp := None, otpExpiry := None\<rparr>], trace = []\<rparr>"
  have f: "findUnique_email ?w ''a@u.edu''
      = Some (alice\<lparr>isVerified := True, otp := None, otpExpiry := None\<rparr>)"
    and g: "findUnique_email ex_world ''a@u.edu'' = Some alice"
    by (simp_all add: findUnique_email_def ex_world_def alice_def)
  have t: "now (ex_env 1000 None) = 1000" by (simp add: ex_env_def)
  have a: "otp alice = Some ''482910''" "otpExpiry alice = Some 600000"
    by (simp_all add: alice_def)
  show ?thesis
    using f g
      cleared_otp_rejects_every_code [of ?w "''a@u.edu''" "ex_env 1000 None" "JStr ''pw2''"
        "JStr ''482910''" "JStr ''forgot-password''"]
      cleared_otp_rejects_every_code [of ?w "''a@u.edu''" "ex_env 1000 None" "JStr ''pw2''"
        JNull "JStr ''forgot-password''"]
      cleared_otp_rejects_every_code [of ex_world "''a@u.edu''" "ex_env 1000 None" "JStr ''pw2''"
        JNull "JStr ''forgot-password''" "''pw2''"]
    by (simp add: t a)
qed

end
